theory Spec2Isabelle
  imports Complex_Main
begin

section \<open>The TransitionScene component: React state and the toggle effect\<close>

text \<open>
  The component keeps four pieces of React state (\<^verbatim>\<open>useState\<close>):
  \<^verbatim>\<open>action\<close> (initially 0), \<^verbatim>\<open>currentSceneIndex\<close> (initially 0),
  \<^verbatim>\<open>timeStart\<close> (initially -1000) and \<^verbatim>\<open>isFirstRender\<close> (initially true).
  The two indices are JavaScript numbers that only ever hold integers, the time stamp is a
  JavaScript number holding seconds; they are modelled as \<open>int\<close> and \<open>real\<close>.
\<close>

record component =
  action :: int
  currentSceneIndex :: int
  timeStart :: real
  isFirstRender :: bool

definition initial :: component where
  "initial = \<lparr>action = 0, currentSceneIndex = 0, timeStart = - 1000, isFirstRender = True\<rparr>"

text \<open>
  The effect that runs when the \<^verbatim>\<open>toggle\<close> prop changes (and once on mount); the
  specification calls it \<open>onTrigger\<close>. \<open>elapsed\<close> is what \<^verbatim>\<open>clock.current.getElapsedTime()\<close>
  returns at the moment the effect runs.
  \<^verbatim>\<open>
    if (!isFirstRender) {
      setAction((prev) => (prev === 0 ? 1 : 0));
      setCurrentSceneIndex((prev) => (prev === 0 ? 1 : 0));
      setTimeStart(clock.current.getElapsedTime());
    } else {
      setIsFirstRender(false);
    }
  \<close>
\<close>

definition onTrigger :: "real \<Rightarrow> component \<Rightarrow> component" where
  "onTrigger elapsed st =
     (if \<not> isFirstRender st then
        st\<lparr>action := (if action st = 0 then 1 else 0),
           currentSceneIndex := (if currentSceneIndex st = 0 then 1 else 0),
           timeStart := elapsed\<rparr>
      else st\<lparr>isFirstRender := False\<rparr>)"

text \<open>
  React runs the effect once on mount and once for every change of \<^verbatim>\<open>toggle\<close>.
  \<open>triggers ts st\<close> runs it once for each clock reading in \<open>ts\<close>, in order; the states
  the component can be in are \<open>triggers ts initial\<close>.
\<close>

fun triggers :: "real list \<Rightarrow> component \<Rightarrow> component" where
  "triggers [] st = st"
| "triggers (elapsed # ts) st = triggers ts (onTrigger elapsed st)"

section \<open>The TransitionMaterial shader\<close>

text \<open>
  The seven uniforms of the material. On the JavaScript side the two scene uniforms hold
  \<^verbatim>\<open>null\<close> or the texture of a frame buffer object; inside the fragment shader they are
  samplers. The record is therefore polymorphic in what a scene uniform holds.
\<close>

record 'tex uniforms =
  scene0 :: 'tex
  scene1 :: 'tex
  aspect :: real
  action :: real
  time :: real
  timeStart :: real
  duration :: real

type_synonym vec2 = "real \<times> real"
type_synonym vec3 = "real \<times> real \<times> real"
type_synonym vec4 = "real \<times> real \<times> real \<times> real"

text \<open>A bound 2D texture, seen from the shader: a colour for every texture coordinate.\<close>

type_synonym sampler2D = "vec2 \<Rightarrow> vec4"

definition texture2D :: "sampler2D \<Rightarrow> vec2 \<Rightarrow> vec4" where
  "texture2D s uv = s uv"

fun rgb :: "vec4 \<Rightarrow> vec3" where
  "rgb (r, g, b, a) = (r, g, b)"

fun vec4 :: "vec3 \<Rightarrow> real \<Rightarrow> vec4" where
  "vec4 (r, g, b) a = (r, g, b, a)"

text \<open>
  The GLSL built-ins the shader calls, by their defining formulas in the GLSL ES
  specification: \<^verbatim>\<open>clamp(x, lo, hi) = min(max(x, lo), hi)\<close>,
  \<^verbatim>\<open>smoothstep(e0, e1, x)\<close> is \<^verbatim>\<open>t * t * (3 - 2 * t)\<close> for
  \<^verbatim>\<open>t = clamp((x - e0) / (e1 - e0), 0, 1)\<close>, and
  \<^verbatim>\<open>mix(x, y, a) = x * (1 - a) + y * a\<close> in every component.
  Floats are modelled as reals.
\<close>

definition clamp :: "real \<Rightarrow> real \<Rightarrow> real \<Rightarrow> real" where
  "clamp x minVal maxVal = min (max x minVal) maxVal"

definition smoothstep :: "real \<Rightarrow> real \<Rightarrow> real \<Rightarrow> real" where
  "smoothstep edge0 edge1 x =
     (let t = clamp ((x - edge0) / (edge1 - edge0)) 0 1 in t * t * (3 - 2 * t))"

fun mix :: "vec3 \<Rightarrow> vec3 \<Rightarrow> real \<Rightarrow> vec3" where
  "mix (x1, x2, x3) (y1, y2, y3) a =
     (x1 * (1 - a) + y1 * a, x2 * (1 - a) + y2 * a, x3 * (1 - a) + y3 * a)"

text \<open>
  The fragment shader's \<^verbatim>\<open>main\<close>, line by line; the result is \<^verbatim>\<open>gl_FragColor\<close>
  and \<open>vUv\<close> is the interpolated texture coordinate of the pixel.
  \<^verbatim>\<open>
     vec2 uv = vUv;
     vec4 s0 = texture2D(scene0, uv);
     vec4 s1 = texture2D(scene1, uv);
     float d = vUv.x;
     float waveWidth = 0.25;
     float halfWave = waveWidth * 0.5;
     float maxLength = 1.0 + waveWidth;
     float currWavePos = -halfWave + maxLength * clamp((time - timeStart) / duration, 0.0, 1.0);
     float f = smoothstep(currWavePos + halfWave, currWavePos - halfWave, d);
     vec3 col = mix(s0.rgb, s1.rgb, f);
     gl_FragColor = vec4(col, 1.0);
  \<close>
\<close>

definition main :: "sampler2D uniforms \<Rightarrow> vec2 \<Rightarrow> vec4" where
  "main u vUv =
     (let uv = vUv;
          s0 = texture2D (scene0 u) uv;
          s1 = texture2D (scene1 u) uv;
          d = fst vUv;
          waveWidth = 0.25;
          halfWave = waveWidth * 0.5;
          maxLength = 1.0 + waveWidth;
          currWavePos = - halfWave + maxLength * clamp ((time u - timeStart u) / duration u) 0.0 1.0;
          f = smoothstep (currWavePos + halfWave) (currWavePos - halfWave) d;
          col = mix (rgb s0) (rgb s1) f
      in vec4 col 1.0)"

text \<open>
  The intermediate values of \<open>main\<close> that the properties below talk about, as functions
  of their own: the three constants, the clamped progress, the wave position for a
  progress \<open>p\<close>, and the blend factor \<open>f\<close> (\<open>wipe\<close> gives it for a progress, \<open>f\<close> for the
  uniforms).
\<close>

definition waveWidth :: real where
  "waveWidth = 0.25"

definition halfWave :: real where
  "halfWave = waveWidth * 0.5"

definition maxLength :: real where
  "maxLength = 1 + waveWidth"

definition progress :: "'tex uniforms \<Rightarrow> real" where
  "progress u = clamp ((time u - timeStart u) / duration u) 0 1"

definition currWavePos :: "real \<Rightarrow> real" where
  "currWavePos p = - halfWave + maxLength * p"

definition wipe :: "real \<Rightarrow> real \<Rightarrow> real" where
  "wipe p d = smoothstep (currWavePos p + halfWave) (currWavePos p - halfWave) d"

definition f :: "'tex uniforms \<Rightarrow> real \<Rightarrow> real" where
  "f u d = wipe (progress u) d"

section \<open>The frame callback\<close>

text \<open>
  The two frame buffer objects \<^verbatim>\<open>fbo1\<close> and \<^verbatim>\<open>fbo2\<close>. A render target is one of them
  or \<^verbatim>\<open>null\<close> (the canvas), hence a \<open>target option\<close>. The texture of a frame buffer
  object is identified with the object, so a scene uniform of the material holds a
  \<open>target option\<close> too (\<^verbatim>\<open>null\<close> until the first frame writes it).
\<close>

datatype target = Fbo1 | Fbo2

text \<open>
  The renderer \<^verbatim>\<open>gl\<close>: the bound render target, the scene last drawn into each target
  (a \<^verbatim>\<open>gl.render\<close> clears its target first), and the calls made so far, oldest first.
  The camera is the same object in every call and is left out.
\<close>

datatype 'sc call = SetRenderTarget "target option" | Render 'sc

record 'sc renderer =
  renderTarget :: "target option"
  drawn :: "target option \<Rightarrow> 'sc option"
  calls :: "'sc call list"

datatype error = TypeError

definition setRenderTarget :: "target option \<Rightarrow> 'sc renderer \<Rightarrow> 'sc renderer" where
  "setRenderTarget t g = g\<lparr>renderTarget := t, calls := calls g @ [SetRenderTarget t]\<rparr>"

text \<open>
  Reading a JavaScript array at a number gives \<^verbatim>\<open>undefined\<close> outside the array;
  rendering \<^verbatim>\<open>undefined\<close> throws.
\<close>

definition js_index :: "'a list \<Rightarrow> int \<Rightarrow> 'a option" where
  "js_index xs i = (if 0 \<le> i \<and> i < int (length xs) then Some (xs ! nat i) else None)"

definition render :: "'sc option \<Rightarrow> 'sc renderer \<Rightarrow> error + 'sc renderer" where
  "render scene g =
     (case scene of
        None \<Rightarrow> Inl TypeError
      | Some sc \<Rightarrow> Inr (g\<lparr>drawn := (drawn g)(renderTarget g := Some sc), calls := calls g @ [Render sc]\<rparr>))"

text \<open>The default uniforms that \<^verbatim>\<open>shaderMaterial\<close> is given.\<close>

definition TransitionMaterial :: "target option uniforms" where
  "TransitionMaterial =
     \<lparr>scene0 = None, scene1 = None, aspect = 1, action = 0, time = 0, timeStart = - 1000, duration = 3\<rparr>"

text \<open>
  What the frame callback reads and writes besides the React state: the renderer, the
  \<^verbatim>\<open>time\<close> ref and the \<^verbatim>\<open>materialRef\<close> ref, which is empty or holds the material.
\<close>

record 'sc frame =
  gl :: "'sc renderer"
  time_current :: real
  materialRef_current :: "target option uniforms option"

text \<open>
  The callback given to \<^verbatim>\<open>useFrame\<close>; \<open>elapsed\<close> is what
  \<^verbatim>\<open>clock.current.getElapsedTime()\<close> returns in this frame.
  \<^verbatim>\<open>
    time.current = clock.current.getElapsedTime();
    gl.setRenderTarget(fbo1);
    gl.render(scenes[currentSceneIndex], camera);
    gl.setRenderTarget(fbo2);
    gl.render(scenes[1 - currentSceneIndex], camera);
    gl.setRenderTarget(null);
    if (materialRef.current) {
      materialRef.current.uniforms.scene0.value = fbo1.texture;
      materialRef.current.uniforms.scene1.value = fbo2.texture;
      materialRef.current.uniforms.time.value = time.current;
      materialRef.current.uniforms.timeStart.value = timeStart;
    }
  \<close>
\<close>

definition useFrame :: "real \<Rightarrow> 'sc list \<Rightarrow> component \<Rightarrow> 'sc frame \<Rightarrow> error + 'sc frame" where
  "useFrame elapsed scenes st fr =
     (let g1 = setRenderTarget (Some Fbo1) (gl fr) in
      case render (js_index scenes (currentSceneIndex st)) g1 of
        Inl e \<Rightarrow> Inl e
      | Inr g2 \<Rightarrow>
          (let g3 = setRenderTarget (Some Fbo2) g2 in
           case render (js_index scenes (1 - currentSceneIndex st)) g3 of
             Inl e \<Rightarrow> Inl e
           | Inr g4 \<Rightarrow>
               Inr \<lparr>gl = setRenderTarget None g4,
                    time_current = elapsed,
                    materialRef_current =
                      (case materialRef_current fr of
                         None \<Rightarrow> None
                       | Some m \<Rightarrow>
                           Some (m\<lparr>scene0 := Some Fbo1, scene1 := Some Fbo2,
                                   time := elapsed, timeStart := component.timeStart st\<rparr>))\<rparr>))"

text \<open>
  The props that every React render of the component puts on the material:
  \<^verbatim>\<open>
      <transitionMaterial ref={materialRef} aspect={size.width / size.height} action={action}
        time={time.current} timeStart={timeStart} duration={3} />
  \<close>
\<close>

definition transitionMaterial ::
  "real \<Rightarrow> real \<Rightarrow> component \<Rightarrow> real \<Rightarrow> 'tex uniforms \<Rightarrow> 'tex uniforms" where
  "transitionMaterial width height st time_cur m =
     m\<lparr>aspect := width / height, action := real_of_int (component.action st),
       time := time_cur, timeStart := component.timeStart st, duration := 3\<rparr>"

text \<open>What a frame left in a target, and what it left in the material; nothing after an error.\<close>

definition drawn_in :: "target \<Rightarrow> error + 'sc frame \<Rightarrow> 'sc option" where
  "drawn_in t r = (case r of Inl e \<Rightarrow> None | Inr fr \<Rightarrow> drawn (gl fr) (Some t))"

definition material_of :: "error + 'sc frame \<Rightarrow> target option uniforms option" where
  "material_of r = (case r of Inl e \<Rightarrow> None | Inr fr \<Rightarrow> materialRef_current fr)"

text \<open>
  The refs and the renderer when the component has just been mounted: nothing drawn yet, and
  the material with the uniforms \<^verbatim>\<open>shaderMaterial\<close> was given.
\<close>

definition mounted :: "'sc frame" where
  "mounted = \<lparr>gl = \<lparr>renderTarget = None, drawn = (\<lambda>t. None), calls = []\<rparr>,
              time_current = 0, materialRef_current = Some TransitionMaterial\<rparr>"


section \<open>Facts about the shader\<close>

lemma main_f:
  "main u (d, y) =
     vec4 (mix (rgb (texture2D (scene0 u) (d, y))) (rgb (texture2D (scene1 u) (d, y))) (f u d)) 1"
  by (simp add: main_def f_def wipe_def currWavePos_def progress_def halfWave_def maxLength_def
        waveWidth_def Let_def)

lemma wipe_eq: "wipe p d = (let t = clamp (5 * p - 4 * d) 0 1 in t * t * (3 - 2 * t))"
proof -
  have "(d - (currWavePos p + halfWave)) / ((currWavePos p - halfWave) - (currWavePos p + halfWave))
        = 5 * p - 4 * d"
    by (simp add: currWavePos_def halfWave_def maxLength_def waveWidth_def field_simps)
  then show ?thesis
    by (simp add: wipe_def smoothstep_def Let_def)
qed

lemma clamp_bounds: "0 \<le> clamp x 0 1" "clamp x 0 1 \<le> 1"
  by (simp_all add: clamp_def)

lemma clamp_mono: "x \<le> y \<Longrightarrow> clamp x 0 1 \<le> clamp y 0 1"
  by (simp add: clamp_def min_def max_def)

lemma cubic_mono:
  fixes a b :: real
  assumes "0 \<le> a" "a \<le> b" "b \<le> 1"
  shows "a * a * (3 - 2 * a) \<le> b * b * (3 - 2 * b)"
proof -
  have "b * b * (3 - 2 * b) - a * a * (3 - 2 * a) = (b - a) * (3 * (a + b) - 2 * (a * a + a * b + b * b))"
    by (simp add: algebra_simps)
  moreover have "a * a \<le> a" "b * b \<le> b" "a * b \<le> a" "a * b \<le> b"
    using assms by (simp_all add: mult_left_le mult_left_le_one_le mult_right_le_one_le)
  then have "0 \<le> 3 * (a + b) - 2 * (a * a + a * b + b * b)"
    by (simp add: algebra_simps)
  ultimately show ?thesis using assms
    by (metis diff_ge_0_iff_ge mult_nonneg_nonneg)
qed

lemma wipe_mono_progress: "p \<le> q \<Longrightarrow> wipe p d \<le> wipe q d"
  unfolding wipe_eq Let_def
  by (rule cubic_mono) (simp_all add: clamp_bounds clamp_mono)

lemma wipe_antimono_d: "d1 \<le> d2 \<Longrightarrow> wipe p d2 \<le> wipe p d1"
  unfolding wipe_eq Let_def
  by (rule cubic_mono) (simp_all add: clamp_bounds clamp_mono)

lemma wipe_one: "d \<le> currWavePos p - halfWave \<Longrightarrow> wipe p d = 1"
proof -
  assume "d \<le> currWavePos p - halfWave"
  then have "1 \<le> 5 * p - 4 * d"
    by (simp add: currWavePos_def halfWave_def maxLength_def waveWidth_def)
  then have "clamp (5 * p - 4 * d) 0 1 = 1" by (simp add: clamp_def)
  then show ?thesis by (simp add: wipe_eq)
qed

lemma wipe_zero: "currWavePos p + halfWave \<le> d \<Longrightarrow> wipe p d = 0"
proof -
  assume "currWavePos p + halfWave \<le> d"
  then have "5 * p - 4 * d \<le> 0"
    by (simp add: currWavePos_def halfWave_def maxLength_def waveWidth_def)
  then have "clamp (5 * p - 4 * d) 0 1 = 0" by (simp add: clamp_def)
  then show ?thesis by (simp add: wipe_eq)
qed

lemma progress_one: "0 < duration u \<Longrightarrow> duration u \<le> time u - timeStart u \<Longrightarrow> progress u = 1"
proof -
  assume "0 < duration u" "duration u \<le> time u - timeStart u"
  then have "1 \<le> (time u - timeStart u) / duration u" by (simp add: field_simps)
  then show ?thesis by (simp add: progress_def clamp_def)
qed

lemma progress_mono:
  "0 < duration u \<Longrightarrow> t1 \<le> t2 \<Longrightarrow> progress (u\<lparr>time := t1\<rparr>) \<le> progress (u\<lparr>time := t2\<rparr>)"
  unfolding progress_def by (intro clamp_mono) (simp add: divide_right_mono)

lemma wipe_zero_iff_le: "5 * p \<le> 4 * d \<Longrightarrow> wipe p d = 0"
proof -
  assume "5 * p \<le> 4 * d"
  then have "clamp (5 * p - 4 * d) 0 1 = 0" by (simp add: clamp_def)
  then show ?thesis by (simp add: wipe_eq)
qed

lemma clamp_le_self: "0 \<le> x \<Longrightarrow> clamp x 0 1 \<le> x"
  by (simp add: clamp_def)

section \<open>Facts about the component\<close>

lemma onTrigger_index:
  "currentSceneIndex st = 0 \<or> currentSceneIndex st = 1 \<Longrightarrow>
   currentSceneIndex (onTrigger elapsed st) = 0 \<or> currentSceneIndex (onTrigger elapsed st) = 1"
  by (simp add: onTrigger_def)

lemma triggers_index:
  "currentSceneIndex st = 0 \<or> currentSceneIndex st = 1 \<Longrightarrow>
   currentSceneIndex (triggers ts st) = 0 \<or> currentSceneIndex (triggers ts st) = 1"
proof (induction ts arbitrary: st)
  case Nil
  then show ?case by simp
next
  case (Cons t ts)
  from Cons.prems have "currentSceneIndex (onTrigger t st) = 0 \<or> currentSceneIndex (onTrigger t st) = 1"
    by (rule onTrigger_index)
  then show ?case by (simp add: Cons.IH)
qed

lemma triggers_action:
  "component.action st = currentSceneIndex st \<Longrightarrow>
   component.action (triggers ts st) = currentSceneIndex (triggers ts st)"
  by (induction ts arbitrary: st) (simp_all add: onTrigger_def)

lemma reachable_index:
  "currentSceneIndex (triggers ts initial) = 0 \<or> currentSceneIndex (triggers ts initial) = 1"
  by (rule triggers_index) (simp add: initial_def)

lemma reachable_action:
  "component.action (triggers ts initial) = currentSceneIndex (triggers ts initial)"
  by (rule triggers_action) (simp add: initial_def)

text \<open>With two scenes and an index that is 0 or 1, the frame callback does not throw.\<close>

lemma useFrame_two_scenes:
  assumes "currentSceneIndex st = 0 \<or> currentSceneIndex st = 1"
  shows "useFrame elapsed [sA, sB] st fr =
     Inr \<lparr>gl = \<lparr>renderTarget = None,
                 drawn = (drawn (gl fr))
                   (Some Fbo1 := Some ([sA, sB] ! nat (currentSceneIndex st)),
                    Some Fbo2 := Some ([sA, sB] ! nat (1 - currentSceneIndex st))),
                 calls = calls (gl fr) @
                   [SetRenderTarget (Some Fbo1), Render ([sA, sB] ! nat (currentSceneIndex st)),
                    SetRenderTarget (Some Fbo2), Render ([sA, sB] ! nat (1 - currentSceneIndex st)),
                    SetRenderTarget None]\<rparr>,
          time_current = elapsed,
          materialRef_current =
            map_option (\<lambda>m. m\<lparr>scene0 := Some Fbo1, scene1 := Some Fbo2, time := elapsed,
                                timeStart := component.timeStart st\<rparr>) (materialRef_current fr)\<rparr>"
  using assms
  by (auto simp add: useFrame_def render_def js_index_def setRenderTarget_def Let_def
      split: option.splits)

lemma useFrame_same_index:
  "currentSceneIndex st' = currentSceneIndex st \<Longrightarrow>
   map_sum id gl (useFrame elapsed scenes st' fr) = map_sum id gl (useFrame elapsed scenes st fr)"
  by (simp add: useFrame_def Let_def split: sum.splits)

lemma useFrame_same_state:
  "currentSceneIndex st' = currentSceneIndex st \<Longrightarrow> component.timeStart st' = component.timeStart st \<Longrightarrow>
   useFrame elapsed scenes st' fr = useFrame elapsed scenes st fr"
  by (simp add: useFrame_def Let_def cong: sum.case_cong option.case_cong)

section \<open>The properties\<close>

text \<open>
  C1. Steady state. Whenever the duration is positive and \<open>time - timeStart\<close> has reached it,
  and in particular with the sentinel \<open>timeStart = -1000\<close>, the component's duration 3 and any
  clock reading \<open>time \<ge> 0\<close>, the clamped progress is 1, the blend factor \<open>f\<close> is 1 at every
  pixel coordinate \<open>d \<le> 1\<close>, and the colour the shader writes is the colour of the \<open>scene1\<close>
  sample at that pixel (the shader always writes alpha 1).
\<close>

theorem steady_state_shows_scene1:
  assumes "0 < duration u \<and> duration u \<le> time u - timeStart u
           \<or> timeStart u = - 1000 \<and> duration u = 3 \<and> 0 \<le> time u"
    and "d \<le> 1"
  shows "progress u = 1 \<and> f u d = 1
         \<and> main u (d, y) = vec4 (rgb (texture2D (scene1 u) (d, y))) 1"
proof -
  from assms(1) have "0 < duration u \<and> duration u \<le> time u - timeStart u"
    by auto
  then have p: "progress u = 1"
    by (simp add: progress_one)
  have "d \<le> currWavePos 1 - halfWave"
    using assms(2) by (simp add: currWavePos_def halfWave_def maxLength_def waveWidth_def)
  then have w: "f u d = 1"
    by (simp add: f_def p wipe_one)
  have "main u (d, y) = vec4 (rgb (texture2D (scene1 u) (d, y))) 1"
    unfolding main_f w
    by (cases "rgb (texture2D (scene0 u) (d, y))"; cases "rgb (texture2D (scene1 u) (d, y))") simp
  with p w show ?thesis by simp
qed

theorem steady_state_shows_scene1_witness:
  "(let u = \<lparr>scene0 = (\<lambda>uv. (1, 0, 0, 1)), scene1 = (\<lambda>uv. (0, fst uv, 1, 0)), aspect = 1,
              action = 0, time = 5, timeStart = - 1000, duration = 3\<rparr>
    in (0 < duration u \<and> duration u \<le> time u - timeStart u
          \<or> timeStart u = - 1000 \<and> duration u = 3 \<and> 0 \<le> time u)
       \<and> (1 / 2 :: real) \<le> 1
       \<and> progress u = 1 \<and> f u (1 / 2) = 1 \<and> main u (1 / 2, 1 / 4) = (0, 1 / 2, 1, 1))"
  using steady_state_shows_scene1
    [of "\<lparr>scene0 = (\<lambda>uv. (1, 0, 0, 1)), scene1 = (\<lambda>uv. (0, fst uv, 1, 0)), aspect = 1,
              action = 0, time = 5, timeStart = - 1000, duration = 3\<rparr>" "1 / 2" "1 / 4"]
  by (simp add: texture2D_def)

text \<open>
  C2, as stated: a trigger past the first-render guard leaves the assignment of scenes to
  render targets as it was, \<open>scenes[0]\<close> in \<^verbatim>\<open>fbo1\<close> and \<open>scenes[1]\<close> in \<^verbatim>\<open>fbo2\<close>. It fails
  on the first trigger after mount: the next frame renders \<open>scenes[1]\<close> into \<^verbatim>\<open>fbo1\<close> and
  \<open>scenes[0]\<close> into \<^verbatim>\<open>fbo2\<close>.
\<close>

theorem mapping_fixed_counterexample:
  "\<not> (drawn_in Fbo1 (useFrame 2 [''Scene0'', ''Scene1''] (onTrigger 1 (triggers [0] initial)) mounted)
         = Some ([''Scene0'', ''Scene1''] ! 0)
      \<and> drawn_in Fbo2 (useFrame 2 [''Scene0'', ''Scene1''] (onTrigger 1 (triggers [0] initial)) mounted)
         = Some ([''Scene0'', ''Scene1''] ! 1))"
proof -
  have i: "currentSceneIndex (onTrigger 1 (onTrigger 0 initial)) = 1"
    by (simp add: onTrigger_def initial_def)
  show ?thesis
    by (simp add: drawn_in_def useFrame_two_scenes i)
qed

text \<open>
  C2, amended. A trigger past the first-render guard swaps the assignment: with \<open>i\<close> the
  index before the trigger, a frame before it renders \<open>scenes[i]\<close> into \<^verbatim>\<open>fbo1\<close> and
  \<open>scenes[1 - i]\<close> into \<^verbatim>\<open>fbo2\<close>, a frame after it renders \<open>scenes[1 - i]\<close> into \<^verbatim>\<open>fbo1\<close> and
  \<open>scenes[i]\<close> into \<^verbatim>\<open>fbo2\<close>. The trigger also flips \<open>action\<close>, in the state and in the uniform
  the next React render sets, and stamps \<open>timeStart\<close> with the clock reading.
\<close>

theorem trigger_swaps_mapping:
  assumes "\<not> isFirstRender (triggers ts initial)"
  shows "(let st = triggers ts initial; st' = onTrigger elapsed st; i = currentSceneIndex st;
              scenes = [sA, sB]
          in drawn_in Fbo1 (useFrame t scenes st fr) = Some (scenes ! nat i)
           \<and> drawn_in Fbo2 (useFrame t scenes st fr) = Some (scenes ! nat (1 - i))
           \<and> drawn_in Fbo1 (useFrame t' scenes st' fr') = Some (scenes ! nat (1 - i))
           \<and> drawn_in Fbo2 (useFrame t' scenes st' fr') = Some (scenes ! nat i)
           \<and> currentSceneIndex st' = 1 - i
           \<and> component.action st' = 1 - component.action st
           \<and> component.timeStart st' = elapsed
           \<and> action (transitionMaterial w h st' tc m) = 1 - action (transitionMaterial w h st tc m)
           \<and> timeStart (transitionMaterial w h st' tc m) = elapsed)"
proof -
  let ?st = "triggers ts initial"
  let ?st' = "onTrigger elapsed ?st"
  have i: "currentSceneIndex ?st = 0 \<or> currentSceneIndex ?st = 1"
    by (rule reachable_index)
  then have i': "currentSceneIndex ?st' = 0 \<or> currentSceneIndex ?st' = 1"
    by (rule onTrigger_index)
  have flip: "currentSceneIndex ?st' = 1 - currentSceneIndex ?st"
    using assms i by (auto simp add: onTrigger_def)
  have act: "component.action ?st' = 1 - component.action ?st"
    using assms i reachable_action [of ts] by (auto simp add: onTrigger_def)
  have ts: "component.timeStart ?st' = elapsed"
    using assms by (simp add: onTrigger_def)
  show ?thesis
    unfolding Let_def
    by (simp add: useFrame_two_scenes [OF i] useFrame_two_scenes [OF i'] drawn_in_def flip act ts
        transitionMaterial_def)
qed

theorem trigger_swaps_mapping_witness:
  "\<not> isFirstRender (triggers [0] initial)
   \<and> drawn_in Fbo1 (useFrame 1 [''Scene0'', ''Scene1''] (triggers [0] initial) mounted) = Some ''Scene0''
   \<and> drawn_in Fbo2 (useFrame 1 [''Scene0'', ''Scene1''] (triggers [0] initial) mounted) = Some ''Scene1''
   \<and> drawn_in Fbo1 (useFrame 3 [''Scene0'', ''Scene1''] (onTrigger 2 (triggers [0] initial)) mounted)
       = Some ''Scene1''
   \<and> drawn_in Fbo2 (useFrame 3 [''Scene0'', ''Scene1''] (onTrigger 2 (triggers [0] initial)) mounted)
       = Some ''Scene0''"
proof -
  have guard: "\<not> isFirstRender (triggers [0] initial)"
    by (simp add: onTrigger_def initial_def)
  have i: "currentSceneIndex (triggers [0] initial) = 0"
    by (simp add: onTrigger_def initial_def)
  note sw = trigger_swaps_mapping
    [OF guard, where elapsed = 2 and sA = "''Scene0''" and sB = "''Scene1''" and t = 1
       and fr = mounted and t' = 3 and fr' = mounted and w = 800 and h = 600 and tc = 0
       and m = TransitionMaterial, unfolded Let_def i]
  from sw have "drawn_in Fbo1 (useFrame 1 [''Scene0'', ''Scene1''] (triggers [0] initial) mounted)
      = Some ([''Scene0'', ''Scene1''] ! nat 0)"
    and "drawn_in Fbo2 (useFrame 1 [''Scene0'', ''Scene1''] (triggers [0] initial) mounted)
      = Some ([''Scene0'', ''Scene1''] ! nat (1 - 0))"
    and "drawn_in Fbo1 (useFrame 3 [''Scene0'', ''Scene1''] (onTrigger 2 (triggers [0] initial)) mounted)
      = Some ([''Scene0'', ''Scene1''] ! nat (1 - 0))"
    and "drawn_in Fbo2 (useFrame 3 [''Scene0'', ''Scene1''] (onTrigger 2 (triggers [0] initial)) mounted)
      = Some ([''Scene0'', ''Scene1''] ! nat 0)"
    by blast+
  then show ?thesis
    using guard by simp
qed

text \<open>
  C3, as stated: for a progress \<open>p\<close> and pixels \<open>d1 < d2\<close> the blend factor at \<open>d2\<close> is at least
  the one at \<open>d1\<close>. It fails half way through the transition: the pixel at \<open>1/5\<close> already
  shows \<open>scene1\<close> (\<open>f = 1\<close>) while the pixel at \<open>4/5\<close> still shows \<open>scene0\<close> (\<open>f = 0\<close>).
\<close>

theorem wipe_right_to_left_counterexample:
  "(1 / 5 :: real) < 4 / 5 \<and> \<not> wipe (1 / 2) (1 / 5) \<le> wipe (1 / 2) (4 / 5)"
  by (simp add: wipe_eq clamp_def)

text \<open>
  C3, amended. With the reversed-edge smoothstep the blend factor is non-increasing in \<open>d\<close>:
  for every progress \<open>p\<close> and pixels \<open>d1 < d2\<close>, \<open>f\<close> at \<open>d2\<close> is at most \<open>f\<close> at \<open>d1\<close>, so
  \<open>scene1\<close> is revealed at smaller \<open>d\<close> before larger \<open>d\<close> and the wipe sweeps from \<open>d = 0\<close>
  towards \<open>d = 1\<close>.
\<close>

theorem wipe_left_to_right:
  assumes "d1 < d2"
  shows "wipe p d2 \<le> wipe p d1"
  using assms by (simp add: wipe_antimono_d)

theorem wipe_left_to_right_witness:
  "(1 / 5 :: real) < 4 / 5 \<and> wipe (1 / 2) (4 / 5) \<le> wipe (1 / 2) (1 / 5)"
  using wipe_left_to_right [of "1 / 5" "4 / 5" "1 / 2"] by simp

text \<open>
  C4. While the first-render guard is still set, and so on the very first run of the effect,
  the effect only clears the guard: \<open>action\<close>, \<open>currentSceneIndex\<close> and \<open>timeStart\<close> keep their
  values, and everything the compositor gets from the state is as before, namely the result
  of any frame callback and the props any React render puts on the material.
\<close>

theorem first_trigger_only_consumes_guard:
  assumes "isFirstRender st"
  shows "(let st' = onTrigger elapsed st
          in st' = st\<lparr>isFirstRender := False\<rparr>
           \<and> component.action st' = component.action st
           \<and> currentSceneIndex st' = currentSceneIndex st
           \<and> component.timeStart st' = component.timeStart st
           \<and> useFrame t scenes st' fr = useFrame t scenes st fr
           \<and> transitionMaterial w h st' tc m = transitionMaterial w h st tc m)"
proof -
  from assms have eq: "onTrigger elapsed st = st\<lparr>isFirstRender := False\<rparr>"
    by (simp add: onTrigger_def)
  have "useFrame t scenes (st\<lparr>isFirstRender := False\<rparr>) fr = useFrame t scenes st fr"
    by (rule useFrame_same_state) simp_all
  then show ?thesis
    unfolding Let_def eq
    by (simp add: transitionMaterial_def)
qed

theorem first_trigger_only_consumes_guard_witness:
  "isFirstRender initial
   \<and> onTrigger 7 initial = initial\<lparr>isFirstRender := False\<rparr>
   \<and> component.action (onTrigger 7 initial) = 0
   \<and> currentSceneIndex (onTrigger 7 initial) = 0
   \<and> component.timeStart (onTrigger 7 initial) = - 1000
   \<and> useFrame 8 [''Scene0'', ''Scene1''] (onTrigger 7 initial) mounted
       = useFrame 8 [''Scene0'', ''Scene1''] initial mounted"
proof -
  have guard: "isFirstRender initial"
    by (simp add: initial_def)
  have start: "component.action initial = 0" "currentSceneIndex initial = 0"
    "component.timeStart initial = - 1000"
    by (simp_all add: initial_def)
  note th = first_trigger_only_consumes_guard
    [OF guard, where elapsed = 7 and t = 8 and scenes = "[''Scene0'', ''Scene1'']"
       and fr = mounted and w = 800 and h = 600 and tc = 0 and m = TransitionMaterial,
     unfolded Let_def start]
  from th guard show ?thesis
    by blast
qed

text \<open>
  C5, as stated: after a trigger in the middle of a transition, the next frame has at every
  pixel the blend factor of progress 0. It fails as soon as the clock has advanced between
  the trigger and the frame: with the first trigger at 1, the second at 2 and the next frame
  at 2.06, the progress of that frame is 0.02 and the pixel at \<open>d = 1/80\<close> has \<open>f = 29/4000\<close>,
  not the 0 of progress 0.
\<close>

theorem retrigger_progress_zero_counterexample:
  "2 - component.timeStart (triggers [0, 1] initial) < 3
   \<and> \<not> map_option (\<lambda>m. f m (1 / 80))
         (material_of (useFrame (103 / 50) [''Scene0'', ''Scene1'']
            (onTrigger 2 (triggers [0, 1] initial)) mounted))
       = Some (wipe 0 (1 / 80))"
proof -
  have st: "component.timeStart (onTrigger 1 (onTrigger 0 initial)) = 1"
    "currentSceneIndex (onTrigger 2 (onTrigger 1 (onTrigger 0 initial))) = 0"
    "component.timeStart (onTrigger 2 (onTrigger 1 (onTrigger 0 initial))) = 2"
    by (simp_all add: onTrigger_def initial_def)
  show ?thesis
    by (simp add: material_of_def useFrame_two_scenes st mounted_def TransitionMaterial_def
        f_def progress_def wipe_eq clamp_def)
qed

text \<open>
  C5, amended. A trigger past the first-render guard is never ignored, whether or not a
  transition is running: it sets \<open>timeStart\<close> to the clock reading \<open>now\<close> of the trigger and flips
  \<open>currentSceneIndex\<close>. The next frame, at a clock reading \<open>t \<ge> now\<close> and with a positive
  duration, computes the blend factor of every pixel \<open>e\<close> from the progress
  \<open>clamp ((t - now) / duration) 0 1\<close>, and at every pixel \<open>d\<close> with
  \<open>5 (t - now) \<le> 4 d duration\<close> (every pixel \<open>d \<ge> 0\<close> when \<open>t = now\<close>) that is the blend factor
  of progress 0, which is 0. So at any such pixel where \<open>0 < f < 1\<close> held in a frame before
  the trigger, the blend factor of the frame after the trigger differs from the one before.
\<close>

theorem retrigger_restarts_wipe:
  assumes guard: "\<not> isFirstRender (triggers ts initial)"
    and mat: "materialRef_current fr = Some m"
    and dur: "0 < duration m"
    and clock: "now \<le> t"
    and pixel: "5 * (t - now) \<le> 4 * d * duration m"
    and before: "map_option (\<lambda>m'. f m' d)
                   (material_of (useFrame tb [sA, sB] (triggers ts initial) frb)) = Some v"
    and band: "0 < v" "v < 1"
  shows "(let st = triggers ts initial; st' = onTrigger now st;
              after = material_of (useFrame t [sA, sB] st' fr)
          in component.timeStart st' = now
           \<and> currentSceneIndex st' = 1 - currentSceneIndex st
           \<and> map_option progress after = Some (clamp ((t - now) / duration m) 0 1)
           \<and> map_option (\<lambda>m'. f m' e) after = Some (wipe (clamp ((t - now) / duration m) 0 1) e)
           \<and> map_option (\<lambda>m'. f m' d) after = Some (wipe 0 d)
           \<and> wipe 0 d = 0
           \<and> map_option (\<lambda>m'. f m' d) after
               \<noteq> map_option (\<lambda>m'. f m' d) (material_of (useFrame tb [sA, sB] st frb)))"
proof -
  let ?st = "triggers ts initial"
  let ?st' = "onTrigger now ?st"
  let ?p = "clamp ((t - now) / duration m) 0 1"
  have i: "currentSceneIndex ?st = 0 \<or> currentSceneIndex ?st = 1"
    by (rule reachable_index)
  then have i': "currentSceneIndex ?st' = 0 \<or> currentSceneIndex ?st' = 1"
    by (rule onTrigger_index)
  have flip: "currentSceneIndex ?st' = 1 - currentSceneIndex ?st"
    using guard i by (auto simp add: onTrigger_def)
  have ts: "component.timeStart ?st' = now"
    using guard by (simp add: onTrigger_def)
  have after: "material_of (useFrame t [sA, sB] ?st' fr)
      = Some (m\<lparr>scene0 := Some Fbo1, scene1 := Some Fbo2, time := t, timeStart := now\<rparr>)"
    by (simp add: useFrame_two_scenes [OF i'] material_of_def mat ts)
  have q: "0 \<le> (t - now) / duration m"
    using dur clock by simp
  then have "?p \<le> (t - now) / duration m"
    by (rule clamp_le_self)
  also have "5 * \<dots> \<le> 4 * d"
    using dur pixel by (simp add: field_simps)
  finally have "5 * ?p \<le> 4 * d"
    by simp
  then have wp: "wipe ?p d = 0"
    by (rule wipe_zero_iff_le)
  have "0 \<le> 5 * (t - now)"
    using clock by simp
  with pixel have "0 \<le> 4 * d * duration m"
    by linarith
  with dur have "0 \<le> d"
    by (simp add: zero_le_mult_iff)
  then have "5 * 0 \<le> 4 * d"
    by simp
  then have z: "wipe 0 d = 0"
    by (rule wipe_zero_iff_le)
  have fe: "map_option (\<lambda>m'. f m' e) (material_of (useFrame t [sA, sB] ?st' fr)) = Some (wipe ?p e)" for e
    by (simp add: after f_def progress_def)
  have pr: "map_option progress (material_of (useFrame t [sA, sB] ?st' fr)) = Some ?p"
    by (simp add: after progress_def)
  have fd: "map_option (\<lambda>m'. f m' d) (material_of (useFrame t [sA, sB] ?st' fr)) = Some (wipe 0 d)"
    by (simp only: fe wp z)
  have ne: "map_option (\<lambda>m'. f m' d) (material_of (useFrame t [sA, sB] ?st' fr))
      \<noteq> map_option (\<lambda>m'. f m' d) (material_of (useFrame tb [sA, sB] ?st frb))"
    using band by (simp only: fd before z) simp
  from ts flip pr fe fd z ne show ?thesis
    by (simp only: Let_def) blast
qed

theorem retrigger_restarts_wipe_witness:
  "\<not> isFirstRender (triggers [0, 1] initial)
   \<and> materialRef_current (mounted :: string frame) = Some TransitionMaterial
   \<and> 0 < duration TransitionMaterial
   \<and> (2 :: real) \<le> 103 / 50
   \<and> 5 * (103 / 50 - 2) \<le> 4 * (1 / 4) * duration TransitionMaterial
   \<and> map_option (\<lambda>m'. f m' (1 / 4))
        (material_of (useFrame (19 / 10) [''Scene0'', ''Scene1''] (triggers [0, 1] initial) mounted))
       = Some (1 / 2)
   \<and> (0 :: real) < 1 / 2 \<and> (1 / 2 :: real) < 1
   \<and> component.timeStart (onTrigger 2 (triggers [0, 1] initial)) = 2
   \<and> map_option (\<lambda>m'. f m' (1 / 4))
        (material_of (useFrame (103 / 50) [''Scene0'', ''Scene1''] (onTrigger 2 (triggers [0, 1] initial)) mounted))
       = Some (wipe 0 (1 / 4))
   \<and> wipe 0 (1 / 4) = 0
   \<and> map_option (\<lambda>m'. f m' (1 / 4))
        (material_of (useFrame (103 / 50) [''Scene0'', ''Scene1''] (onTrigger 2 (triggers [0, 1] initial)) mounted))
       \<noteq> map_option (\<lambda>m'. f m' (1 / 4))
        (material_of (useFrame (19 / 10) [''Scene0'', ''Scene1''] (triggers [0, 1] initial) mounted))"
proof -
  have guard: "\<not> isFirstRender (triggers [0, 1] initial)"
    by (simp add: onTrigger_def initial_def)
  have mat: "materialRef_current (mounted :: string frame) = Some TransitionMaterial"
    by (simp add: mounted_def)
  have dur: "0 < duration TransitionMaterial"
    by (simp add: TransitionMaterial_def)
  have clock: "(2 :: real) \<le> 103 / 50"
    by simp
  have pixel: "5 * (103 / 50 - 2) \<le> 4 * (1 / 4) * duration TransitionMaterial"
    by (simp add: TransitionMaterial_def)
  have st: "currentSceneIndex (onTrigger 1 (onTrigger 0 initial)) = 1"
    "component.timeStart (onTrigger 1 (onTrigger 0 initial)) = 1"
    by (simp_all add: onTrigger_def initial_def)
  have before: "map_option (\<lambda>m'. f m' (1 / 4))
        (material_of (useFrame (19 / 10) [''Scene0'', ''Scene1''] (triggers [0, 1] initial) mounted))
       = Some (1 / 2)"
    by (simp add: material_of_def useFrame_two_scenes st mounted_def TransitionMaterial_def
        f_def progress_def wipe_eq clamp_def)
  have lo: "(0 :: real) < 1 / 2" and hi: "(1 / 2 :: real) < 1"
    by simp_all
  note th = retrigger_restarts_wipe
    [OF guard mat dur clock pixel before lo hi, where e = "1 / 80", unfolded Let_def]
  from th guard mat dur clock pixel before lo hi show ?thesis
    by blast
qed

text \<open>
  C6. In every state the component can reach and in every frame, the callback returns
  normally, and what it did to the renderer is exactly: bind \<^verbatim>\<open>fbo1\<close>, render
  \<open>scenes[currentSceneIndex]\<close>, bind \<^verbatim>\<open>fbo2\<close>, render \<open>scenes[1 - currentSceneIndex]\<close>, bind
  \<^verbatim>\<open>null\<close>. Afterwards the first target holds the one scene, the second the other, and
  the canvas is the bound target again.
\<close>

theorem frame_render_passes:
  "(let st = triggers ts initial; i = currentSceneIndex st; scenes = [sA, sB]
    in map_sum id gl (useFrame elapsed scenes st fr) =
         Inr \<lparr>renderTarget = None,
              drawn = (drawn (gl fr))
                (Some Fbo1 := Some (scenes ! nat i), Some Fbo2 := Some (scenes ! nat (1 - i))),
              calls = calls (gl fr) @
                [SetRenderTarget (Some Fbo1), Render (scenes ! nat i),
                 SetRenderTarget (Some Fbo2), Render (scenes ! nat (1 - i)),
                 SetRenderTarget None]\<rparr>)"
  using reachable_index [of ts]
  by (simp add: Let_def useFrame_two_scenes)

text \<open>
  C7. For a positive duration and a fixed pixel, the blend factor does not decrease when the
  clock reading grows (at any two readings, so also between \<open>timeStart\<close> and
  \<open>timeStart + duration\<close>). For a fixed clock reading it is monotonic in \<open>d\<close>
  (non-increasing, across the wave band and everywhere else), it is 1 at and to the left of
  \<open>currWavePos - halfWave\<close> and 0 at and to the right of \<open>currWavePos + halfWave\<close>.
\<close>

theorem monotone_sweep:
  assumes "0 < duration u"
  shows "(t1 \<le> t2 \<longrightarrow> f (u\<lparr>time := t1\<rparr>) d \<le> f (u\<lparr>time := t2\<rparr>) d)
       \<and> (d1 \<le> d2 \<longrightarrow> f u d2 \<le> f u d1)
       \<and> (dl \<le> currWavePos (progress u) - halfWave \<longrightarrow> f u dl = 1)
       \<and> (currWavePos (progress u) + halfWave \<le> dr \<longrightarrow> f u dr = 0)"
  using assms
  by (simp add: f_def wipe_mono_progress progress_mono wipe_antimono_d wipe_one wipe_zero)

theorem monotone_sweep_witness:
  "(let u = \<lparr>scene0 = None :: target option, scene1 = None, aspect = 1, action = 0, time = 3 / 2,
              timeStart = 0, duration = 3\<rparr>
    in 0 < duration u
       \<and> (1 :: real) \<le> 2 \<and> f (u\<lparr>time := 1\<rparr>) (1 / 2) \<le> f (u\<lparr>time := 2\<rparr>) (1 / 2)
       \<and> (2 / 5 :: real) \<le> 3 / 5 \<and> f u (3 / 5) \<le> f u (2 / 5)
       \<and> 1 / 4 \<le> currWavePos (progress u) - halfWave \<and> f u (1 / 4) = 1
       \<and> currWavePos (progress u) + halfWave \<le> 3 / 4 \<and> f u (3 / 4) = 0)"
  using monotone_sweep
    [of "\<lparr>scene0 = None :: target option, scene1 = None, aspect = 1, action = 0, time = 3 / 2,
              timeStart = 0, duration = 3\<rparr>" 1 2 "1 / 2" "2 / 5" "3 / 5" "1 / 4" "3 / 4"]
  by (simp add: progress_def clamp_def currWavePos_def halfWave_def maxLength_def waveWidth_def)

text \<open>
  C8. In any state the component can reach in which the guard is consumed, running the
  effect twice brings \<open>currentSceneIndex\<close> back to its value, and a frame renders into the
  two targets exactly what it would have rendered before the two triggers.
\<close>

theorem two_triggers_restore_index:
  assumes "\<not> isFirstRender (triggers ts initial)"
  shows "(let st = triggers ts initial; st'' = onTrigger tb (onTrigger ta st)
          in currentSceneIndex st'' = currentSceneIndex st
           \<and> map_sum id gl (useFrame t scenes st'' fr) = map_sum id gl (useFrame t scenes st fr))"
proof -
  let ?st = "triggers ts initial"
  have "currentSceneIndex ?st = 0 \<or> currentSceneIndex ?st = 1"
    by (rule reachable_index)
  with assms have "currentSceneIndex (onTrigger tb (onTrigger ta ?st)) = currentSceneIndex ?st"
    by (auto simp add: onTrigger_def)
  then have "currentSceneIndex (onTrigger tb (onTrigger ta ?st)) = currentSceneIndex ?st
      \<and> map_sum id gl (useFrame t scenes (onTrigger tb (onTrigger ta ?st)) fr)
          = map_sum id gl (useFrame t scenes ?st fr)"
    by (simp only: useFrame_same_index [of "onTrigger tb (onTrigger ta ?st)" ?st t scenes fr])
  then show ?thesis
    by (simp only: Let_def)
qed

theorem two_triggers_restore_index_witness:
  "\<not> isFirstRender (triggers [0] initial)
   \<and> currentSceneIndex (onTrigger 2 (onTrigger 1 (triggers [0] initial)))
       = currentSceneIndex (triggers [0] initial)
   \<and> map_sum id gl (useFrame 3 [''Scene0'', ''Scene1''] (onTrigger 2 (onTrigger 1 (triggers [0] initial))) mounted)
       = map_sum id gl (useFrame 3 [''Scene0'', ''Scene1''] (triggers [0] initial) mounted)"
proof -
  have guard: "\<not> isFirstRender (triggers [0] initial)"
    by (simp add: onTrigger_def initial_def)
  note th = two_triggers_restore_index
    [OF guard, where ta = 1 and tb = 2 and t = 3 and scenes = "[''Scene0'', ''Scene1'']"
       and fr = mounted, unfolded Let_def]
  from th guard show ?thesis
    by blast
qed




text \<open>
  C10. Two runs of the shader whose uniforms agree on \<open>scene0\<close>, \<open>scene1\<close>, \<open>time\<close>,
  \<open>timeStart\<close> and \<open>duration\<close> write the same colour at every pixel, whatever \<open>aspect\<close> and
  \<open>action\<close> are in the two runs.
\<close>

theorem output_ignores_aspect_and_action:
  assumes "scene0 u = scene0 v" and "scene1 u = scene1 v" and "time u = time v"
    and "timeStart u = timeStart v" and "duration u = duration v"
  shows "main u vUv = main v vUv"
  using assms by (simp add: main_def)

theorem output_ignores_aspect_and_action_witness:
  "(let u = \<lparr>scene0 = (\<lambda>uv. (1, 0, 0, 1)), scene1 = (\<lambda>uv. (0, fst uv, 1, 0)), aspect = 1,
              action = 0, time = 1, timeStart = 0, duration = 3\<rparr>;
        v = \<lparr>scene0 = (\<lambda>uv. (1, 0, 0, 1)), scene1 = (\<lambda>uv. (0, fst uv, 1, 0)), aspect = 16 / 9,
              action = 1, time = 1, timeStart = 0, duration = 3\<rparr>
    in scene0 u = scene0 v \<and> scene1 u = scene1 v \<and> time u = time v
       \<and> timeStart u = timeStart v \<and> duration u = duration v
       \<and> aspect u \<noteq> aspect v \<and> action u \<noteq> action v
       \<and> main u (1 / 4, 1 / 2) = main v (1 / 4, 1 / 2))"
  using output_ignores_aspect_and_action
    [of "\<lparr>scene0 = (\<lambda>uv. (1, 0, 0, 1)), scene1 = (\<lambda>uv. (0, fst uv, 1, 0)), aspect = 1,
              action = 0, time = 1, timeStart = 0, duration = 3\<rparr>"
        "\<lparr>scene0 = (\<lambda>uv. (1, 0, 0, 1)), scene1 = (\<lambda>uv. (0, fst uv, 1, 0)), aspect = 16 / 9,
              action = 1, time = 1, timeStart = 0, duration = 3\<rparr>" "(1 / 4, 1 / 2)"]
  by simp

end
